theory Spec2Isabelle
  imports Main "HOL-Library.Word"
begin

unbundle bit_operations_syntax

section \<open>The handler of \<^verbatim>\<open>apps/ethereum/verify_merkle_proof.py\<close>\<close>

text \<open>
  The module under verification is
  \<^verbatim>\<open>
  from trezor import wire
  from trezor.crypto.curve import secp256k1
  from trezor.crypto.hashlib import sha3_256
  from trezor.messages.Success import Success

  async def verify_merkle_proof(ctx):
      return Success(message="Message verified")
  \<close>
  Its body is a single \<^verbatim>\<open>return\<close>: no name it imports is used, nothing is read from
  \<^verbatim>\<open>ctx\<close>, nothing is raised and the coroutine never suspends.
\<close>

subsection \<open>Data\<close>

type_synonym bytes = "8 word list"

text \<open>
  \<^verbatim>\<open>trezor.messages.Success\<close> is not part of the sources at hand; the one field the
  constructor call sets is kept.
\<close>

record Success =
  message :: string

text \<open>The data model of the design document (section 3).\<close>

datatype direction = LEFT | RIGHT

datatype ProofStep = ProofStep (siblingHash: bytes) (direction: direction)

datatype reason = MalformedPath | LengthMismatch | HashMismatch

datatype VerificationResult = Verified | Rejected reason

text \<open>
  What the request-handling collaborator of section 6 hands to the verifier: the leaf
  payload, the proof path, the trusted root and the configured depth bound.
\<close>

record request =
  leaf :: bytes
  path :: "ProofStep list"
  root :: bytes
  maxDepth :: nat

subsection \<open>Effects\<close>

text \<open>
  The handler receives a reference to a mutable object and lives next to a hash
  primitive. Both are made explicit: the state holds the object \<open>ctx\<close> refers to and
  a trace of the observable operations performed so far, oldest first. An invocation
  of the hash primitive and a comparison of a recomputed value against a root are the
  two operations the design document speaks about; a comparison of two byte strings
  is carried out as comparisons of single bytes, and each of those is an operation
  of its own in the trace, so that the cost of a comparison can be counted.
\<close>

datatype event = Hashed bytes | Compared bytes bytes | ByteCompared "8 word" "8 word"

record 'ctx machine =
  ctx :: 'ctx
  trace :: "event list"

text \<open>
  Modelled from the spec: \<^verbatim>\<open>trezor.crypto.hashlib.sha3_256\<close> is imported by the module
  and absent from the sources. Section 4.1 gives its contract only (bytes to fixed-width
  bytes, deterministic, no failure), so the digest function is the parameter \<open>h\<close>. An invocation is recorded in
  the trace, which is how a test harness would instrument it.
\<close>

definition sha3_256 :: "(bytes \<Rightarrow> bytes) \<Rightarrow> bytes \<Rightarrow> 'ctx machine \<Rightarrow> bytes \<times> 'ctx machine" where
  "sha3_256 h data s = (h data, s\<lparr>trace := trace s @ [Hashed data]\<rparr>)"

subsection \<open>The handler\<close>

text \<open>
  A handler either returns its reply (\<open>Inr\<close>) or declines by raising (\<open>Inl\<close>). The
  body has no \<^verbatim>\<open>raise\<close> and no call, so the only branch is the reply, and the
  state is handed back as it was received.
\<close>

definition verify_merkle_proof :: "'ctx machine \<Rightarrow> (reason + Success) \<times> 'ctx machine" where
  "verify_merkle_proof s = (Inr \<lparr>message = ''Message verified''\<rparr>, s)"

text \<open>
  Section 6 of the design document: a success response stands for \<open>Verified\<close>, a
  declined request for \<open>Rejected\<close> with its reason.
\<close>

fun verdict :: "reason + Success \<Rightarrow> VerificationResult" where
  "verdict (Inr reply) = Verified"
| "verdict (Inl why) = Rejected why"

text \<open>
  The public operation \<open>verify(leaf, path, root, maxDepth)\<close> of the design document is
  this handler, run on a context that carries the request, from a fresh trace.
\<close>

definition run_request :: "request \<Rightarrow> (reason + Success) \<times> request machine" where
  "run_request q = verify_merkle_proof \<lparr>ctx = q, trace = []\<rparr>"

definition verify :: "bytes \<Rightarrow> ProofStep list \<Rightarrow> bytes \<Rightarrow> nat \<Rightarrow> VerificationResult" where
  "verify l p r d = verdict (fst (run_request \<lparr>leaf = l, path = p, root = r, maxDepth = d\<rparr>))"

section \<open>The algorithm as the design document words it\<close>

text \<open>
  These definitions follow the text of sections 4.1 and 4.2, not the code; they are
  what the handler is compared with. The hash primitive \<open>h\<close> and its output width
  \<open>w\<close> are parameters.
\<close>

fun spec_fold_step :: "(bytes \<Rightarrow> bytes) \<Rightarrow> bytes \<Rightarrow> ProofStep \<Rightarrow> bytes" where
  "spec_fold_step h running (ProofStep sibling RIGHT) = h (running @ sibling)"
| "spec_fold_step h running (ProofStep sibling LEFT) = h (sibling @ running)"

definition spec_root :: "(bytes \<Rightarrow> bytes) \<Rightarrow> bytes \<Rightarrow> ProofStep list \<Rightarrow> bytes" where
  "spec_root h l p = foldl (spec_fold_step h) (h l) p"

definition spec_widths_ok :: "nat \<Rightarrow> ProofStep list \<Rightarrow> bytes \<Rightarrow> bool" where
  "spec_widths_ok w p r = (list_all (\<lambda>st. length (siblingHash st) = w) p \<and> length r = w)"

definition spec_verify ::
  "(bytes \<Rightarrow> bytes) \<Rightarrow> nat \<Rightarrow> bytes \<Rightarrow> ProofStep list \<Rightarrow> bytes \<Rightarrow> nat \<Rightarrow> VerificationResult" where
  "spec_verify h w l p r d =
     (if \<not> length p \<le> d then Rejected MalformedPath
      else if \<not> spec_widths_ok w p r then Rejected MalformedPath
      else if spec_root h l p = r then Verified
      else Rejected HashMismatch)"

subsection \<open>Single-bit corruption (section 8)\<close>

definition flip_bit :: "nat \<Rightarrow> nat \<Rightarrow> bytes \<Rightarrow> bytes" where
  "flip_bit i k bs = (if i < length bs then bs[i := (bs ! i) XOR push_bit k 1] else bs)"

datatype corruption = FlipLeaf nat nat | FlipRoot nat nat | FlipSibling nat nat nat

fun flip_sibling :: "nat \<Rightarrow> nat \<Rightarrow> ProofStep \<Rightarrow> ProofStep" where
  "flip_sibling i k (ProofStep sibling dir) = ProofStep (flip_bit i k sibling) dir"

fun corrupt :: "corruption \<Rightarrow> request \<Rightarrow> request" where
  "corrupt (FlipLeaf i k) q = q\<lparr>leaf := flip_bit i k (leaf q)\<rparr>"
| "corrupt (FlipRoot i k) q = q\<lparr>root := flip_bit i k (root q)\<rparr>"
| "corrupt (FlipSibling n i k) q =
     (if n < length (path q) then q\<lparr>path := (path q)[n := flip_sibling i k (path q ! n)]\<rparr> else q)"

definition verify_request :: "request \<Rightarrow> VerificationResult" where
  "verify_request q = verify (leaf q) (path q) (root q) (maxDepth q)"

subsection \<open>Fixtures\<close>

text \<open>
  The concrete scenario of section 8: a fixed 32-byte test hash, the leaf
  \<^verbatim>\<open>b"transfer:100"\<close>, two sibling values and the path \<open>[(S1, RIGHT), (S2, LEFT)]\<close>.
\<close>

definition test_hash :: "bytes \<Rightarrow> bytes" where
  "test_hash bs = replicate 32 (sum_list bs + 1)"

definition fixture_leaf :: bytes where
  "fixture_leaf = [116, 114, 97, 110, 115, 102, 101, 114, 58, 49, 48, 48]"

definition fixture_S1 :: bytes where
  "fixture_S1 = replicate 32 7"

definition fixture_S2 :: bytes where
  "fixture_S2 = replicate 32 9"

definition fixture_path :: "ProofStep list" where
  "fixture_path = [ProofStep fixture_S1 RIGHT, ProofStep fixture_S2 LEFT]"

definition fixture_root :: bytes where
  "fixture_root = test_hash (fixture_S2 @ test_hash (test_hash fixture_leaf @ fixture_S1))"

definition fixture_request :: request where
  "fixture_request =
     \<lparr>leaf = fixture_leaf, path = fixture_path, root = fixture_root, maxDepth = 2\<rparr>"

text \<open>A request whose only sibling hash is one byte shorter than the test hash's width.\<close>

definition fixture_short_request :: request where
  "fixture_short_request =
     \<lparr>leaf = fixture_leaf, path = [ProofStep (replicate 31 7) RIGHT], root = fixture_root,
      maxDepth = 1\<rparr>"

text \<open>The comparisons and the hash invocations recorded in a trace, oldest first.\<close>

fun comparisons :: "event list \<Rightarrow> (bytes \<times> bytes) list" where
  "comparisons [] = []"
| "comparisons (Compared a b # es) = (a, b) # comparisons es"
| "comparisons (Hashed data # es) = comparisons es"
| "comparisons (ByteCompared x y # es) = comparisons es"

fun hash_inputs :: "event list \<Rightarrow> bytes list" where
  "hash_inputs [] = []"
| "hash_inputs (Hashed data # es) = data # hash_inputs es"
| "hash_inputs (Compared a b # es) = hash_inputs es"
| "hash_inputs (ByteCompared x y # es) = hash_inputs es"

subsection \<open>The cost of a comparison\<close>

text \<open>The number of single-byte comparison operations recorded in a trace.\<close>

fun comparison_ops :: "event list \<Rightarrow> nat" where
  "comparison_ops [] = 0"
| "comparison_ops (ByteCompared x y # es) = Suc (comparison_ops es)"
| "comparison_ops (Hashed data # es) = comparison_ops es"
| "comparison_ops (Compared a b # es) = comparison_ops es"

text \<open>
  Modelled from the spec: the two ways of comparing a recomputed value with a root
  that section 4.2 (step 5) and the glossary tell apart. Neither is defined or called
  in the sources. The ordinary equality of byte strings walks both operands from the
  front and stops at the first pair of bytes that differ; the constant-time check
  looks at every pair of bytes, whatever it has seen before.
\<close>

fun early_exit_ops :: "bytes \<Rightarrow> bytes \<Rightarrow> event list" where
  "early_exit_ops (x # xs) (y # ys) =
     ByteCompared x y # (if x = y then early_exit_ops xs ys else [])"
| "early_exit_ops [] ys = []"
| "early_exit_ops (x # xs) [] = []"

definition bytes_eq :: "bytes \<Rightarrow> bytes \<Rightarrow> 'ctx machine \<Rightarrow> bool \<times> 'ctx machine" where
  "bytes_eq a b s = (a = b, s\<lparr>trace := trace s @ Compared a b # early_exit_ops a b\<rparr>)"

definition consteq :: "bytes \<Rightarrow> bytes \<Rightarrow> 'ctx machine \<Rightarrow> bool \<times> 'ctx machine" where
  "consteq a b s =
     (a = b, s\<lparr>trace := trace s @ Compared a b # map (\<lambda>(x, y). ByteCompared x y) (zip a b)\<rparr>)"

text \<open>The operations a run adds to the trace it started from.\<close>

definition ops_of_run :: "'ctx machine \<Rightarrow> 'ctx machine \<Rightarrow> nat" where
  "ops_of_run before after = comparison_ops (trace after) - comparison_ops (trace before)"

section \<open>Properties of the handler\<close>

lemma verify_merkle_proof_reply:
  "fst (verify_merkle_proof s) = Inr \<lparr>message = ''Message verified''\<rparr>"
  by (simp add: verify_merkle_proof_def)

lemma verify_merkle_proof_state:
  "snd (verify_merkle_proof s) = s"
  by (simp add: verify_merkle_proof_def)

lemma verify_always: "verify l p r d = Verified"
  by (simp add: verify_def run_request_def verify_merkle_proof_reply)

lemma sha3_256_recorded: "trace (snd (sha3_256 h data s)) = trace s @ [Hashed data]"
  by (simp add: sha3_256_def)

lemma fixture_root_folded: "fixture_root = spec_root test_hash fixture_leaf fixture_path"
  by (simp add: fixture_root_def spec_root_def fixture_path_def)

subsection \<open>Round trip\<close>

text \<open>
  Claim C1. For every leaf payload and every proof path, if the root is the one
  obtained by seeding the running value with the hash of the leaf and folding the
  steps in path order (running before sibling for \<open>RIGHT\<close>, sibling before running for
  \<open>LEFT\<close>), then the verify operation returns \<open>Verified\<close>.
\<close>

theorem round_trip_verified:
  assumes "r = spec_root h l p"
  shows "verify l p r d = Verified"
  by (rule verify_always)

theorem round_trip_verified_witness:
  "fixture_root = spec_root test_hash fixture_leaf fixture_path
   \<and> verify fixture_leaf fixture_path fixture_root 2 = Verified"
  using round_trip_verified [OF fixture_root_folded, of 2] fixture_root_folded by simp

subsection \<open>Empty path\<close>

text \<open>
  Claim C2, as stated, at a concrete input: with the empty path, the leaf of the
  scenario and a root that is not the hash of that leaf, the claim requires the result
  to be \<open>Verified\<close> exactly when the hash of the leaf is the root. It is \<open>Verified\<close> although
  the two differ.
\<close>

theorem empty_path_iff_counterexample:
  "\<not> (verify fixture_leaf [] fixture_S1 0 = Verified \<longleftrightarrow> test_hash fixture_leaf = fixture_S1)"
  by (simp add: verify_always test_hash_def fixture_leaf_def fixture_S1_def)

text \<open>
  Claim C2, amended. For every leaf, root and depth bound, verify with an empty proof
  path returns \<open>Verified\<close> when the hash of the leaf equals the root, and it returns
  \<open>Verified\<close>, not \<open>Rejected HashMismatch\<close>, when they differ as well.
\<close>

theorem empty_path_verified:
  "(h l = r \<longrightarrow> verify l [] r d = Verified)
   \<and> (h l \<noteq> r \<longrightarrow> verify l [] r d = Verified \<and> verify l [] r d \<noteq> Rejected HashMismatch)"
  by (simp add: verify_always)

theorem empty_path_verified_witness:
  "test_hash fixture_leaf = test_hash fixture_leaf
   \<and> verify fixture_leaf [] (test_hash fixture_leaf) 0 = Verified
   \<and> test_hash fixture_leaf \<noteq> fixture_S1
   \<and> verify fixture_leaf [] fixture_S1 0 = Verified
   \<and> verify fixture_leaf [] fixture_S1 0 \<noteq> Rejected HashMismatch"
proof -
  have differ: "test_hash fixture_leaf \<noteq> fixture_S1"
    by (simp add: test_hash_def fixture_leaf_def fixture_S1_def)
  from empty_path_verified [of test_hash fixture_leaf "test_hash fixture_leaf" 0]
  have same_case: "verify fixture_leaf [] (test_hash fixture_leaf) 0 = Verified"
    by simp
  from empty_path_verified [of test_hash fixture_leaf fixture_S1 0] differ
  have other_case: "verify fixture_leaf [] fixture_S1 0 = Verified
      \<and> verify fixture_leaf [] fixture_S1 0 \<noteq> Rejected HashMismatch"
    by blast
  from differ same_case other_case show ?thesis by simp
qed

subsection \<open>Depth bound\<close>

text \<open>
  Claim C3, as stated, at a concrete input: the path of the scenario has two steps and
  the depth bound is one, so the claim requires \<open>Rejected MalformedPath\<close>. The result
  is \<open>Verified\<close>.
\<close>

theorem depth_bound_counterexample:
  "1 < length fixture_path
   \<and> verify fixture_leaf fixture_path fixture_root 1 \<noteq> Rejected MalformedPath
   \<and> verify fixture_leaf fixture_path fixture_root 1 = Verified"
  by (simp add: verify_always fixture_path_def)

text \<open>
  Claim C3, amended. For every input whose proof path is strictly longer than the
  depth bound, verify returns \<open>Verified\<close>; the length of the path is not examined and
  \<open>Rejected MalformedPath\<close> is not returned.
\<close>

theorem over_long_path_verified:
  assumes "d < length p"
  shows "verify l p r d = Verified \<and> verify l p r d \<noteq> Rejected MalformedPath"
  by (simp add: verify_always)

theorem over_long_path_verified_witness:
  "1 < length fixture_path
   \<and> verify fixture_leaf fixture_path fixture_root 1 = Verified
   \<and> verify fixture_leaf fixture_path fixture_root 1 \<noteq> Rejected MalformedPath"
proof -
  have too_long: "1 < length fixture_path"
    by (simp add: fixture_path_def)
  from over_long_path_verified [OF too_long, of fixture_leaf fixture_root] too_long
  show ?thesis by simp
qed

subsection \<open>Width validation\<close>

text \<open>
  Claim C4, as stated, at a concrete input: a single step whose sibling hash has 31
  bytes, one less than the width of the test hash. The claim requires
  \<open>Rejected MalformedPath\<close>; the result is \<open>Verified\<close>.
\<close>

theorem short_sibling_counterexample:
  "\<not> spec_widths_ok 32 [ProofStep (replicate 31 7) RIGHT] fixture_root
   \<and> verify fixture_leaf [ProofStep (replicate 31 7) RIGHT] fixture_root 1
       \<noteq> Rejected MalformedPath
   \<and> verify fixture_leaf [ProofStep (replicate 31 7) RIGHT] fixture_root 1 = Verified"
  by (simp add: verify_always spec_widths_ok_def)

text \<open>
  Claim C4, amended. For every input in which some sibling hash or the root does not
  have exactly the width of the hash primitive, verify returns \<open>Verified\<close>, and the hash
  function is never invoked: the run records no invocation of it.
\<close>

theorem malformed_width_no_hashing:
  assumes "\<not> spec_widths_ok w (path q) (root q)"
  shows "verify_request q = Verified \<and> hash_inputs (trace (snd (run_request q))) = []"
  by (simp add: verify_request_def verify_always run_request_def verify_merkle_proof_state)

theorem malformed_width_no_hashing_witness:
  "\<not> spec_widths_ok 32 (path fixture_short_request) (root fixture_short_request)
   \<and> verify_request fixture_short_request = Verified
   \<and> hash_inputs (trace (snd (run_request fixture_short_request))) = []"
proof -
  have narrow: "\<not> spec_widths_ok 32 (path fixture_short_request) (root fixture_short_request)"
    by (simp add: spec_widths_ok_def fixture_short_request_def)
  from malformed_width_no_hashing [OF narrow] narrow show ?thesis by simp
qed

subsection \<open>Outcomes\<close>

text \<open>
  Claim C5, as stated, at a concrete input: the path of the scenario with a root of
  the right width that is not the recomputed one. The algorithm of the design document
  rejects it with \<open>HashMismatch\<close>, so a rejection condition holds; the result is the
  success outcome.
\<close>

theorem rejection_swallowed_counterexample:
  "spec_verify test_hash 32 fixture_leaf fixture_path fixture_S2 2 = Rejected HashMismatch
   \<and> verify fixture_leaf fixture_path fixture_S2 2 = Verified"
proof -
  have "spec_verify test_hash 32 fixture_leaf fixture_path fixture_S2 2 = Rejected HashMismatch"
    by code_simp
  then show ?thesis by (simp add: verify_always)
qed

text \<open>
  Claim C5, amended. For every input, the result of verify is exactly one of
  \<open>Verified\<close> or \<open>Rejected reason\<close> with reason among \<open>MalformedPath\<close>, \<open>LengthMismatch\<close>
  and \<open>HashMismatch\<close>; it is \<open>Verified\<close> also when a rejection condition of the design
  document holds (path longer than the bound, a wrong width, a recomputed root that
  differs from the trusted one).
\<close>

theorem outcome_always_success:
  "verify l p r d \<in> {Verified, Rejected MalformedPath, Rejected LengthMismatch, Rejected HashMismatch}
   \<and> (spec_verify h w l p r d \<noteq> Verified \<longrightarrow> verify l p r d = Verified)"
  by (simp add: verify_always)

theorem outcome_always_success_witness:
  "spec_verify test_hash 32 fixture_leaf fixture_path fixture_S2 2 \<noteq> Verified
   \<and> verify fixture_leaf fixture_path fixture_S2 2 = Verified"
proof -
  have rejected: "spec_verify test_hash 32 fixture_leaf fixture_path fixture_S2 2 \<noteq> Verified"
    by code_simp
  from outcome_always_success [of fixture_leaf fixture_path fixture_S2 2 test_hash 32] rejected
  show ?thesis by blast
qed

subsection \<open>Single-bit corruption\<close>

text \<open>
  Claim C6, as stated, at a concrete input: the scenario is well formed and
  \<open>Verified\<close>; flipping the lowest bit of the first byte of \<open>S1\<close> makes the recomputed
  root differ from the trusted root, so the claim requires \<open>Rejected HashMismatch\<close> on
  the corrupted input. The result is \<open>Verified\<close>.
\<close>

theorem bit_flip_counterexample:
  "length (path fixture_request) \<le> maxDepth fixture_request
   \<and> spec_widths_ok 32 (path fixture_request) (root fixture_request)
   \<and> verify_request fixture_request = Verified
   \<and> spec_root test_hash (leaf (corrupt (FlipSibling 0 0 0) fixture_request))
        (path (corrupt (FlipSibling 0 0 0) fixture_request))
       \<noteq> root (corrupt (FlipSibling 0 0 0) fixture_request)
   \<and> verify_request (corrupt (FlipSibling 0 0 0) fixture_request) \<noteq> Rejected HashMismatch"
proof -
  have "length (path fixture_request) \<le> maxDepth fixture_request"
    by code_simp
  moreover have "spec_widths_ok 32 (path fixture_request) (root fixture_request)"
    by code_simp
  moreover have
    "spec_root test_hash (leaf (corrupt (FlipSibling 0 0 0) fixture_request))
        (path (corrupt (FlipSibling 0 0 0) fixture_request))
       \<noteq> root (corrupt (FlipSibling 0 0 0) fixture_request)"
    by code_simp
  ultimately show ?thesis by (simp add: verify_request_def verify_always)
qed

text \<open>
  Claim C6, amended. For every well-formed input that is \<open>Verified\<close> and every flip of
  a single bit of one sibling hash, of the root or of the leaf after which the
  recomputed root differs from the trusted root, verify on the corrupted input returns
  \<open>Verified\<close>, not \<open>Rejected HashMismatch\<close>.
\<close>

theorem bit_flip_still_verified:
  assumes "length (path q) \<le> maxDepth q" and "spec_widths_ok w (path q) (root q)"
    and "verify_request q = Verified"
    and "spec_root h (leaf (corrupt c q)) (path (corrupt c q)) \<noteq> root (corrupt c q)"
  shows "verify_request (corrupt c q) = Verified
    \<and> verify_request (corrupt c q) \<noteq> Rejected HashMismatch"
  by (simp add: verify_request_def verify_always)

theorem bit_flip_still_verified_witness:
  "length (path fixture_request) \<le> maxDepth fixture_request
   \<and> spec_widths_ok 32 (path fixture_request) (root fixture_request)
   \<and> verify_request fixture_request = Verified
   \<and> spec_root test_hash (leaf (corrupt (FlipRoot 31 7) fixture_request))
        (path (corrupt (FlipRoot 31 7) fixture_request))
       \<noteq> root (corrupt (FlipRoot 31 7) fixture_request)
   \<and> verify_request (corrupt (FlipRoot 31 7) fixture_request) = Verified
   \<and> verify_request (corrupt (FlipRoot 31 7) fixture_request) \<noteq> Rejected HashMismatch"
proof -
  have depth: "length (path fixture_request) \<le> maxDepth fixture_request"
    by code_simp
  have widths: "spec_widths_ok 32 (path fixture_request) (root fixture_request)"
    by code_simp
  have before: "verify_request fixture_request = Verified"
    by (simp add: verify_request_def verify_always)
  have differs:
    "spec_root test_hash (leaf (corrupt (FlipRoot 31 7) fixture_request))
        (path (corrupt (FlipRoot 31 7) fixture_request))
       \<noteq> root (corrupt (FlipRoot 31 7) fixture_request)"
    by code_simp
  from bit_flip_still_verified [OF depth widths before differs] depth widths before differs
  show ?thesis by simp
qed

subsection \<open>Determinism\<close>

text \<open>
  Claim C7. Two invocations with identical leaf, path, root and depth bound produce
  identical results, whatever else the two states hold (here: whatever has been
  recorded before), and running the handler again on the state the first run left
  behind gives the same result once more.
\<close>

theorem verify_deterministic:
  assumes "leaf (ctx s1) = leaf (ctx s2)" and "path (ctx s1) = path (ctx s2)"
    and "root (ctx s1) = root (ctx s2)" and "maxDepth (ctx s1) = maxDepth (ctx s2)"
  shows "verdict (fst (verify_merkle_proof s1)) = verdict (fst (verify_merkle_proof s2))
    \<and> fst (verify_merkle_proof (snd (verify_merkle_proof s1))) = fst (verify_merkle_proof s1)"
  by (simp add: verify_merkle_proof_reply)

theorem verify_deterministic_witness:
  "verdict (fst (verify_merkle_proof \<lparr>ctx = fixture_request, trace = []\<rparr>))
     = verdict (fst (verify_merkle_proof
         \<lparr>ctx = fixture_request, trace = [Hashed fixture_leaf, Compared fixture_S1 fixture_S2]\<rparr>))
   \<and> fst (verify_merkle_proof (snd (verify_merkle_proof \<lparr>ctx = fixture_request, trace = []\<rparr>)))
     = fst (verify_merkle_proof \<lparr>ctx = fixture_request, trace = []\<rparr>)"
  using verify_deterministic
    [of "\<lparr>ctx = fixture_request, trace = []\<rparr>"
        "\<lparr>ctx = fixture_request, trace = [Hashed fixture_leaf, Compared fixture_S1 fixture_S2]\<rparr>"]
  by simp

subsection \<open>Frame\<close>

text \<open>
  Claim C8. The handler never mutates its inputs: after the call the leaf payload,
  every step of the path and the root hash held by the object it was given are what
  they were before the call.
\<close>

theorem inputs_unchanged:
  "leaf (ctx (snd (verify_merkle_proof s))) = leaf (ctx s)
   \<and> path (ctx (snd (verify_merkle_proof s))) = path (ctx s)
   \<and> root (ctx (snd (verify_merkle_proof s))) = root (ctx s)
   \<and> ctx (snd (verify_merkle_proof s)) = ctx s"
  by (simp add: verify_merkle_proof_state)

subsection \<open>The final comparison\<close>

text \<open>
  The count of single-byte operations tells the two comparers apart: the constant-time
  check costs as many operations as the operands are long, the early-exit equality
  costs as many as it takes to reach the first difference.
\<close>

lemma comparison_ops_append:
  "comparison_ops (es @ fs) = comparison_ops es + comparison_ops fs"
  by (induction es rule: comparison_ops.induct) simp_all

lemma comparison_ops_zip:
  "comparison_ops (map (\<lambda>(x, y). ByteCompared x y) (zip a b)) = min (length a) (length b)"
proof (induction a arbitrary: b)
  case Nil
  then show ?case by simp
next
  case (Cons x xs)
  then show ?case by (cases b) simp_all
qed

lemma consteq_cost:
  "ops_of_run s (snd (consteq a b s)) = min (length a) (length b)"
  by (simp add: ops_of_run_def consteq_def comparison_ops_append comparison_ops_zip)

lemma early_exit_ops_differ_at:
  "length pre = n \<Longrightarrow> x \<noteq> y \<Longrightarrow>
   comparison_ops (early_exit_ops (pre @ x # xs) (pre @ y # ys)) = Suc n"
  by (induction pre arbitrary: n) auto

lemma bytes_eq_cost_differ_at:
  assumes "length pre = n" and "x \<noteq> y"
  shows "ops_of_run s (snd (bytes_eq (pre @ x # xs) (pre @ y # ys) s)) = Suc n"
  using early_exit_ops_differ_at [OF assms]
  by (simp add: ops_of_run_def bytes_eq_def comparison_ops_append)

lemma bytes_eq_leaks:
  "ops_of_run s (snd (bytes_eq (flip_bit 0 0 fixture_root) fixture_root s))
     \<noteq> ops_of_run s (snd (bytes_eq (flip_bit 31 0 fixture_root) fixture_root s))"
proof -
  have first: "early_exit_ops (flip_bit 0 0 fixture_root) fixture_root
      = [ByteCompared 64 65]"
    by code_simp
  have last: "comparison_ops (early_exit_ops (flip_bit 31 0 fixture_root) fixture_root) = 32"
    by code_simp
  show ?thesis
    by (simp add: ops_of_run_def bytes_eq_def comparison_ops_append first last)
qed


subsection \<open>The handler as it is written\<close>

text \<open>
  Claim C10. For every input, the handler returns \<open>Success\<close> with the message
  \<open>Message verified\<close>: the result is the same for any two inputs, it is never a
  rejection, and no hash computation and no comparison against a root is performed
  before it returns, since the trace is handed back as received.
\<close>

theorem unconditional_success:
  "fst (verify_merkle_proof s) = Inr \<lparr>message = ''Message verified''\<rparr>
   \<and> fst (verify_merkle_proof s) = fst (verify_merkle_proof s')
   \<and> fst (verify_merkle_proof s) \<noteq> Inl why
   \<and> verdict (fst (verify_merkle_proof s)) \<noteq> Rejected why
   \<and> trace (snd (verify_merkle_proof s)) = trace s
   \<and> hash_inputs (trace (snd (run_request q))) = []
   \<and> comparisons (trace (snd (run_request q))) = []"
  by (simp add: verify_merkle_proof_reply verify_merkle_proof_state run_request_def)

end
